theory Spec2Isabelle
  imports Complex_Main
begin

section \<open>The cost calculator of rag-cost-calculator\<close>

text \<open>
  A shallow embedding of \<^verbatim>\<open>wordsToTokens\<close>, \<^verbatim>\<open>tokensToWords\<close>,
  \<^verbatim>\<open>performBackcheck\<close> and \<^verbatim>\<open>calculateCosts\<close>.

  Numbers. The source computes with JavaScript numbers. They are embedded as \<^typ>\<open>real\<close>
  with exact arithmetic: the embedding covers finite numbers and leaves out the rounding of
  binary64, the two signed zeros, \<^verbatim>\<open>NaN\<close> and the infinities. The operations of the
  mathjs chain (\<^verbatim>\<open>multiply\<close>, \<^verbatim>\<open>divide\<close>, \<^verbatim>\<open>add\<close>) on numbers
  are the arithmetic operators, applied in the order of the chain.
  \<^verbatim>\<open>Math.ceil\<close> is \<open>\<lceil>x\<rceil>\<close>, and \<^verbatim>\<open>Math.round\<close>, which rounds a tie towards
  plus infinity, is \<open>round x = \<lfloor>x + 1/2\<rfloor>\<close>.

  Exceptions. The body of \<^verbatim>\<open>calculateCosts\<close> is a \<^verbatim>\<open>try\<close> block. Its only
  operation that throws on numbers is \<^verbatim>\<open>Array.from({length: n})\<close>, which raises a
  \<^verbatim>\<open>RangeError\<close> when the length exceeds \<open>2^32 - 1\<close>. The body therefore returns
  a sum type and \<^verbatim>\<open>calculateCosts\<close> maps the error to the result of the
  \<^verbatim>\<open>catch\<close> block. Memory is unbounded in the embedding: an array of any length up to
  \<open>2^32 - 1\<close> is built.

  A call of \<^verbatim>\<open>calculateCosts\<close> takes one of three paths: the zero guard (one of the
  three usage counts is 0), the fault path (the \<^verbatim>\<open>catch\<close> block) and the main path
  (the rest of the \<^verbatim>\<open>try\<close> block, up to its \<^verbatim>\<open>return\<close>).
\<close>

subsection \<open>Unit converter\<close>

definition WORDS_TO_TOKENS_RATIO :: real where
  "WORDS_TO_TOKENS_RATIO = 1.33"

definition wordsToTokens :: "real \<Rightarrow> real" where
  "wordsToTokens words =
     (if words \<le> 0 then 0 else of_int \<lceil>words * WORDS_TO_TOKENS_RATIO\<rceil>)"

definition tokensToWords :: "real \<Rightarrow> real" where
  "tokensToWords tokens =
     (if tokens \<le> 0 then 0 else of_int \<lceil>tokens / WORDS_TO_TOKENS_RATIO\<rceil>)"

subsection \<open>Data model\<close>

record OpenAIModel =
  name :: string
  description :: string
  inputPrice :: real
  outputPrice :: real

definition gpt_4o :: OpenAIModel where
  "gpt_4o = \<lparr> name = ''GPT-40'',
      description = ''Latest model with vision capabilities, 128K context (Oct 2023)'',
      inputPrice = 0.0025, outputPrice = 0.01 \<rparr>"

definition OPENAI_MODELS :: "string \<rightharpoonup> OpenAIModel" where
  "OPENAI_MODELS = [''gpt-4o'' \<mapsto> gpt_4o]"

record CalculationInput =
  selectedModel :: string
  dailyUsers :: real
  conversationsPerUser :: real
  messagesPerConversation :: real
  wordsPerChunk :: real
  userQueryWords :: real
  responseWords :: real
  chunksPerQuery :: real

text \<open>
  The anonymous object type of \<^verbatim>\<open>expectedValues\<close> and \<^verbatim>\<open>actualValues\<close>.
  Its \<^verbatim>\<open>dailyCost\<close> field is named \<open>dailyCostValue\<close>, since the result record
  has a field \<open>dailyCost\<close> too.
\<close>

record BackcheckValues =
  inputTokens :: real
  outputTokens :: real
  totalMessages :: real
  dailyCostValue :: real

record BackcheckDetails =
  inputTokensMatch :: bool
  outputTokensMatch :: bool
  totalMessagesMatch :: bool
  dailyCostMatch :: bool
  expectedValues :: BackcheckValues
  actualValues :: BackcheckValues

record BackcheckResult =
  isValid :: bool
  details :: BackcheckDetails

record CalculationResult =
  tokensPerMessage :: real
  wordsPerMessage :: real
  totalDailyMessages :: real
  dailyCost :: real
  monthlyCost :: real
  annualCost :: real
  costPerMessage :: real
  costPerUser :: real
  averageHistoryTokens :: real
  backcheck :: "BackcheckResult option"

subsection \<open>Backcheck verifier\<close>

text \<open>\<^verbatim>\<open>model?.inputPrice ?? 0\<close> and \<^verbatim>\<open>model?.outputPrice ?? 0\<close>.\<close>

definition inputPriceOr0 :: "OpenAIModel option \<Rightarrow> real" where
  "inputPriceOr0 model = (case model of None \<Rightarrow> 0 | Some m \<Rightarrow> inputPrice m)"

definition outputPriceOr0 :: "OpenAIModel option \<Rightarrow> real" where
  "outputPriceOr0 model = (case model of None \<Rightarrow> 0 | Some m \<Rightarrow> outputPrice m)"

definition performBackcheck ::
  "CalculationInput \<Rightarrow> CalculationResult \<Rightarrow> OpenAIModel option \<Rightarrow> real \<Rightarrow> real
     \<Rightarrow> BackcheckResult" where
  "performBackcheck input result model totalInputTokens outputTokens' =
     (let expectedTotalMessages =
            dailyUsers input * conversationsPerUser input * messagesPerConversation input;
          expectedDailyCost =
            (totalInputTokens * expectedTotalMessages * inputPriceOr0 model) / 1000 +
            (outputTokens' * expectedTotalMessages * outputPriceOr0 model) / 1000;
          actualTotalMessages = totalDailyMessages result;
          actualDailyCost = dailyCost result;
          totalMessagesMatch' = (\<bar>expectedTotalMessages - actualTotalMessages\<bar> < 0.0001);
          dailyCostMatch' = (\<bar>expectedDailyCost - actualDailyCost\<bar> < 0.0001);
          inputTokensMatch' = True;
          outputTokensMatch' = True
      in \<lparr> isValid =
             (totalMessagesMatch' \<and> dailyCostMatch' \<and> inputTokensMatch' \<and> outputTokensMatch'),
           details = \<lparr>
             inputTokensMatch = inputTokensMatch',
             outputTokensMatch = outputTokensMatch',
             totalMessagesMatch = totalMessagesMatch',
             dailyCostMatch = dailyCostMatch',
             expectedValues = \<lparr>
               inputTokens = totalInputTokens,
               outputTokens = outputTokens',
               totalMessages = expectedTotalMessages,
               dailyCostValue = expectedDailyCost \<rparr>,
             actualValues = \<lparr>
               inputTokens = totalInputTokens,
               outputTokens = outputTokens',
               totalMessages = actualTotalMessages,
               dailyCostValue = actualDailyCost \<rparr> \<rparr> \<rparr>)"

subsection \<open>Cost calculator\<close>

datatype js_error = RangeError

text \<open>
  \<^verbatim>\<open>Array.from({length: n}).map((_, index) => f(index))\<close>. The length of the array-like
  is \<^verbatim>\<open>ToLength(n)\<close>: \<open>n\<close> truncated to an integer and clamped to \<open>0 .. 2^53 - 1\<close>.
  \<^verbatim>\<open>Array.from\<close> then constructs \<^verbatim>\<open>new Array(len)\<close>, which throws a
  \<^verbatim>\<open>RangeError\<close> unless \<open>len \<le> 2^32 - 1\<close>. The elements are all
  \<^verbatim>\<open>undefined\<close> and the callback of \<^verbatim>\<open>map\<close> reads the index only, so the array is
  represented by its indices.
\<close>

definition toLength :: "real \<Rightarrow> nat" where
  "toLength n = (if n \<le> 0 then 0 else min (nat \<lfloor>n\<rfloor>) (2 ^ 53 - 1))"

definition arrayFromLength :: "real \<Rightarrow> js_error + nat list" where
  "arrayFromLength n =
     (if toLength n > 2 ^ 32 - 1 then Inl RangeError else Inr [0 ..< toLength n])"

text \<open>The closure \<^verbatim>\<open>getHistoryTokensForMessage\<close>, with the two token counts it captures.\<close>

definition getHistoryTokensForMessage :: "real \<Rightarrow> real \<Rightarrow> nat \<Rightarrow> real" where
  "getHistoryTokensForMessage queryTokens outputTokens' messageIndex =
     (if messageIndex = 0 then 0 else real messageIndex * (queryTokens + outputTokens'))"

text \<open>The object returned by the zero guard.\<close>

definition zeroResult :: CalculationResult where
  "zeroResult = \<lparr>
     tokensPerMessage = 0, wordsPerMessage = 0, totalDailyMessages = 0,
     dailyCost = 0, monthlyCost = 0, annualCost = 0,
     costPerMessage = 0, costPerUser = 0, averageHistoryTokens = 0,
     backcheck = Some \<lparr>
       isValid = True,
       details = \<lparr>
         inputTokensMatch = True, outputTokensMatch = True,
         totalMessagesMatch = True, dailyCostMatch = True,
         expectedValues = \<lparr> inputTokens = 0, outputTokens = 0,
                            totalMessages = 0, dailyCostValue = 0 \<rparr>,
         actualValues = \<lparr> inputTokens = 0, outputTokens = 0,
                          totalMessages = 0, dailyCostValue = 0 \<rparr> \<rparr> \<rparr> \<rparr>"

text \<open>The object returned by the \<^verbatim>\<open>catch\<close> block.\<close>

definition faultResult :: CalculationResult where
  "faultResult = \<lparr>
     tokensPerMessage = 0, wordsPerMessage = 0, totalDailyMessages = 0,
     dailyCost = 0, monthlyCost = 0, annualCost = 0,
     costPerMessage = 0, costPerUser = 0, averageHistoryTokens = 0,
     backcheck = Some \<lparr>
       isValid = False,
       details = \<lparr>
         inputTokensMatch = False, outputTokensMatch = False,
         totalMessagesMatch = False, dailyCostMatch = False,
         expectedValues = \<lparr> inputTokens = 0, outputTokens = 0,
                            totalMessages = 0, dailyCostValue = 0 \<rparr>,
         actualValues = \<lparr> inputTokens = 0, outputTokens = 0,
                          totalMessages = 0, dailyCostValue = 0 \<rparr> \<rparr> \<rparr> \<rparr>"

text \<open>
  The part of the \<^verbatim>\<open>try\<close> block after the array of indices exists: from
  \<^verbatim>\<open>.map(...)\<close> to the \<^verbatim>\<open>return\<close>.
\<close>

definition calculateFrom ::
  "CalculationInput \<Rightarrow> OpenAIModel option \<Rightarrow> nat list \<Rightarrow> CalculationResult" where
  "calculateFrom input model indices =
     (let chunkTokens = wordsToTokens (wordsPerChunk input);
          queryTokens = wordsToTokens (userQueryWords input);
          outputTokens' = wordsToTokens (responseWords input);
          totalHistoryTokens =
            foldl (\<lambda>sum tokens. sum + tokens) 0
              (map (getHistoryTokensForMessage queryTokens outputTokens') indices);
          averageHistoryTokens' = totalHistoryTokens / messagesPerConversation input;
          totalInputTokens =
            chunksPerQuery input * chunkTokens + queryTokens + averageHistoryTokens';
          tokensPerMessage' = totalInputTokens + outputTokens';
          wordsPerMessage' = tokensToWords (totalInputTokens + outputTokens');
          totalDailyMessages' =
            dailyUsers input * conversationsPerUser input * messagesPerConversation input;
          dailyInputCost =
            totalInputTokens * totalDailyMessages' / 1000 * inputPriceOr0 model;
          dailyOutputCost =
            outputTokens' * totalDailyMessages' / 1000 * outputPriceOr0 model;
          dailyCost' = dailyInputCost + dailyOutputCost;
          monthlyCost' = dailyCost' * 30;
          annualCost' = dailyCost' * 365;
          costPerMessage' =
            (if totalDailyMessages' > 0 then monthlyCost' / (totalDailyMessages' * 30) else 0);
          costPerUser' =
            (if dailyUsers input > 0 then monthlyCost' / dailyUsers input else 0);
          result = \<lparr>
            tokensPerMessage = tokensPerMessage',
            wordsPerMessage = wordsPerMessage',
            totalDailyMessages = totalDailyMessages',
            dailyCost = dailyCost',
            monthlyCost = monthlyCost',
            annualCost = annualCost',
            costPerMessage = costPerMessage',
            costPerUser = costPerUser',
            averageHistoryTokens = of_int (round averageHistoryTokens'),
            backcheck = None \<rparr>;
          backcheck' = performBackcheck input result model totalInputTokens outputTokens'
      in result \<lparr> backcheck := Some backcheck' \<rparr>)"

text \<open>The \<^verbatim>\<open>try\<close> block: \<open>Inl\<close> is an exception on its way to the \<^verbatim>\<open>catch\<close>.\<close>

definition calculateCostsTry :: "CalculationInput \<Rightarrow> js_error + CalculationResult" where
  "calculateCostsTry input =
     (let model = OPENAI_MODELS (selectedModel input)
      in if dailyUsers input = 0 \<or> conversationsPerUser input = 0
            \<or> messagesPerConversation input = 0
         then Inr zeroResult
         else (case arrayFromLength (messagesPerConversation input) of
                 Inl e \<Rightarrow> Inl e
               | Inr indices \<Rightarrow> Inr (calculateFrom input model indices)))"

definition calculateCosts :: "CalculationInput \<Rightarrow> CalculationResult" where
  "calculateCosts input =
     (case calculateCostsTry input of Inl e \<Rightarrow> faultResult | Inr result \<Rightarrow> result)"

subsection \<open>Configurations used as examples\<close>

text \<open>The default configuration of the tests of the calculator.\<close>

definition defaultInput :: CalculationInput where
  "defaultInput = \<lparr> selectedModel = ''gpt-4o'', dailyUsers = 100, conversationsPerUser = 3,
     messagesPerConversation = 5, wordsPerChunk = 200, userQueryWords = 18,
     responseWords = 60, chunksPerQuery = 2 \<rparr>"

text \<open>The configuration of the test "should handle zero values gracefully".\<close>

definition zeroInput :: CalculationInput where
  "zeroInput = defaultInput \<lparr> dailyUsers := 0, conversationsPerUser := 0,
     messagesPerConversation := 0 \<rparr>"

text \<open>The configuration of the test "should handle invalid model gracefully".\<close>

definition unknownModelInput :: CalculationInput where
  "unknownModelInput = defaultInput \<lparr> selectedModel := ''non-existent-model'' \<rparr>"

text \<open>
  A configuration with 2 chunks of 500 tokens, a query of 40 tokens, a response of 100 tokens
  and 5 messages per conversation, hence 280 history tokens on average and 1320 input tokens
  per message: the numbers of the tests of the cost formulas.
\<close>

definition scenarioInput :: CalculationInput where
  "scenarioInput = \<lparr> selectedModel = ''gpt-4o'', dailyUsers = 100, conversationsPerUser = 3,
     messagesPerConversation = 5, wordsPerChunk = 375.5, userQueryWords = 30,
     responseWords = 75, chunksPerQuery = 2 \<rparr>"

text \<open>A configuration whose average of history tokens, 1.2, is not an integer.\<close>

definition fractionalInput :: CalculationInput where
  "fractionalInput = \<lparr> selectedModel = ''gpt-4o'', dailyUsers = 100, conversationsPerUser = 3,
     messagesPerConversation = 2.5, wordsPerChunk = 200, userQueryWords = 0,
     responseWords = 2, chunksPerQuery = 2 \<rparr>"

text \<open>An unknown model and \<open>2^32\<close> messages per conversation.\<close>

definition unknownModelHugeInput :: CalculationInput where
  "unknownModelHugeInput = unknownModelInput \<lparr> messagesPerConversation := 4294967296 \<rparr>"

text \<open>Variations of the default configuration.\<close>

definition noConversationsInput :: CalculationInput where
  "noConversationsInput = defaultInput \<lparr> conversationsPerUser := 0 \<rparr>"





section \<open>Properties\<close>

subsection \<open>The three paths of calculateCosts\<close>

lemma nat_floor_small: "(n::real) < 2 ^ 32 \<Longrightarrow> nat \<lfloor>n\<rfloor> < 2 ^ 32"
proof -
  assume "n < 2 ^ 32"
  then have "n < 4294967296" by simp
  then have "nat \<lfloor>n\<rfloor> < 4294967296" by linarith
  then show ?thesis by simp
qed

lemma toLength_small: "n < 2 ^ 32 \<Longrightarrow> toLength n = nat \<lfloor>n\<rfloor>"
proof -
  assume a: "n < 2 ^ 32"
  have "nat \<lfloor>n\<rfloor> < 2 ^ 32" using a by (rule nat_floor_small)
  then have "min (nat \<lfloor>n\<rfloor>) (2 ^ 53 - 1) = nat \<lfloor>n\<rfloor>" by simp
  moreover have "n \<le> 0 \<Longrightarrow> nat \<lfloor>n\<rfloor> = 0" by linarith
  ultimately show ?thesis by (simp add: toLength_def)
qed

lemma arrayFromLength_ok: "n < 2 ^ 32 \<Longrightarrow> arrayFromLength n = Inr [0 ..< nat \<lfloor>n\<rfloor>]"
proof -
  assume a: "n < 2 ^ 32"
  have "nat \<lfloor>n\<rfloor> < 2 ^ 32" using a by (rule nat_floor_small)
  then show ?thesis using toLength_small [OF a] by (simp add: arrayFromLength_def)
qed

lemma arrayFromLength_fault: "2 ^ 32 \<le> n \<Longrightarrow> arrayFromLength n = Inl RangeError"
proof -
  assume "2 ^ 32 \<le> n"
  then have a: "4294967296 \<le> n" by simp
  then have "4294967296 \<le> nat \<lfloor>n\<rfloor>" by linarith
  moreover have "\<not> n \<le> 0" using a by linarith
  ultimately show ?thesis by (simp add: arrayFromLength_def toLength_def)
qed

lemma foldl_add_shift: "foldl (\<lambda>sum tokens. sum + tokens) a xs = a + sum_list (xs :: real list)"
  by (induction xs arbitrary: a) simp_all

lemma history_sum:
  "foldl (\<lambda>sum tokens. sum + tokens) 0 (map (getHistoryTokensForMessage q o') [0 ..< n])
     = (\<Sum>i = 0 ..< n. real i * (q + o'))"
proof -
  have "sum_list (map (getHistoryTokensForMessage q o') [0 ..< n]) = (\<Sum>i = 0 ..< n. real i * (q + o'))"
    by (induction n) (simp_all add: getHistoryTokensForMessage_def)
  then show ?thesis by (simp add: foldl_add_shift)
qed

lemma calculateCosts_zero:
  "dailyUsers input = 0 \<or> conversationsPerUser input = 0 \<or> messagesPerConversation input = 0
     \<Longrightarrow> calculateCosts input = zeroResult"
  by (simp add: calculateCosts_def calculateCostsTry_def)

lemma calculateCosts_fault:
  "dailyUsers input \<noteq> 0 \<Longrightarrow> conversationsPerUser input \<noteq> 0 \<Longrightarrow>
   2 ^ 32 \<le> messagesPerConversation input \<Longrightarrow> calculateCosts input = faultResult"
proof -
  assume a: "dailyUsers input \<noteq> 0" "conversationsPerUser input \<noteq> 0"
     and b: "2 ^ 32 \<le> messagesPerConversation input"
  from b have "4294967296 \<le> messagesPerConversation input" by simp
  then have "messagesPerConversation input \<noteq> 0" by linarith
  then show ?thesis using a arrayFromLength_fault [OF b]
    by (simp add: calculateCosts_def calculateCostsTry_def)
qed

lemma calculateCosts_main:
  "dailyUsers input \<noteq> 0 \<Longrightarrow> conversationsPerUser input \<noteq> 0 \<Longrightarrow>
   messagesPerConversation input \<noteq> 0 \<Longrightarrow> messagesPerConversation input < 2 ^ 32 \<Longrightarrow>
   calculateCosts input =
     calculateFrom input (OPENAI_MODELS (selectedModel input))
       [0 ..< nat \<lfloor>messagesPerConversation input\<rfloor>]"
  using arrayFromLength_ok [of "messagesPerConversation input"]
  by (simp add: calculateCosts_def calculateCostsTry_def)

text \<open>The fault path is taken by exactly the configurations that pass the zero guard with
  \<open>2^32\<close> messages per conversation or more.\<close>

lemma fault_path_iff:
  "calculateCostsTry input = Inl RangeError \<longleftrightarrow>
     dailyUsers input \<noteq> 0 \<and> conversationsPerUser input \<noteq> 0
     \<and> messagesPerConversation input \<noteq> 0 \<and> 2 ^ 32 \<le> messagesPerConversation input"
proof (cases "messagesPerConversation input < 2 ^ 32")
  case True
  then show ?thesis
    using arrayFromLength_ok [of "messagesPerConversation input"]
    by (simp add: calculateCostsTry_def)
next
  case False
  then have "2 ^ 32 \<le> messagesPerConversation input" by simp
  then show ?thesis
    using arrayFromLength_fault [of "messagesPerConversation input"]
    by (auto simp: calculateCostsTry_def)
qed

subsection \<open>Fields of the result on the main path\<close>

lemma calculateFrom_totalDailyMessages:
  "totalDailyMessages (calculateFrom input model indices) =
     dailyUsers input * conversationsPerUser input * messagesPerConversation input"
  by (simp add: calculateFrom_def Let_def mult_ac)

lemma calculateFrom_dailyCost:
  "dailyCost (calculateFrom input model [0 ..< n]) =
     (chunksPerQuery input * wordsToTokens (wordsPerChunk input)
        + wordsToTokens (userQueryWords input)
        + (\<Sum>i = 0 ..< n. real i *
             (wordsToTokens (userQueryWords input) + wordsToTokens (responseWords input)))
          / messagesPerConversation input)
       * (dailyUsers input * conversationsPerUser input * messagesPerConversation input)
       / 1000 * inputPriceOr0 model
     + wordsToTokens (responseWords input)
       * (dailyUsers input * conversationsPerUser input * messagesPerConversation input)
       / 1000 * outputPriceOr0 model"
  by (simp add: calculateFrom_def Let_def history_sum)

lemma calculateFrom_monthlyCost:
  "monthlyCost (calculateFrom input model indices) =
     dailyCost (calculateFrom input model indices) * 30"
  by (simp add: calculateFrom_def Let_def mult_ac)

lemma calculateFrom_annualCost:
  "annualCost (calculateFrom input model indices) =
     dailyCost (calculateFrom input model indices) * 365"
  by (simp add: calculateFrom_def Let_def mult_ac)

lemma calculateFrom_averageHistoryTokens:
  "averageHistoryTokens (calculateFrom input model [0 ..< n]) =
     of_int (round ((\<Sum>i = 0 ..< n. real i *
        (wordsToTokens (userQueryWords input) + wordsToTokens (responseWords input)))
          / messagesPerConversation input))"
  by (simp add: calculateFrom_def Let_def history_sum)

lemma calculateFrom_tokensPerMessage:
  "tokensPerMessage (calculateFrom input model [0 ..< n]) =
     chunksPerQuery input * wordsToTokens (wordsPerChunk input)
        + wordsToTokens (userQueryWords input)
        + (\<Sum>i = 0 ..< n. real i *
             (wordsToTokens (userQueryWords input) + wordsToTokens (responseWords input)))
          / messagesPerConversation input
        + wordsToTokens (responseWords input)"
  by (simp add: calculateFrom_def Let_def history_sum)

lemma calculateFrom_backcheck:
  "backcheck (calculateFrom input model [0 ..< n]) =
     Some (performBackcheck input
       ((calculateFrom input model [0 ..< n]) \<lparr> backcheck := None \<rparr>) model
       (chunksPerQuery input * wordsToTokens (wordsPerChunk input)
        + wordsToTokens (userQueryWords input)
        + (\<Sum>i = 0 ..< n. real i *
             (wordsToTokens (userQueryWords input) + wordsToTokens (responseWords input)))
          / messagesPerConversation input)
       (wordsToTokens (responseWords input)))"
  by (simp add: calculateFrom_def Let_def history_sum)

lemma calculateFrom_inputTokens:
  "map_option (\<lambda>b. inputTokens (expectedValues (details b)))
      (backcheck (calculateFrom input model [0 ..< n])) =
   Some (chunksPerQuery input * wordsToTokens (wordsPerChunk input)
        + wordsToTokens (userQueryWords input)
        + (\<Sum>i = 0 ..< n. real i *
             (wordsToTokens (userQueryWords input) + wordsToTokens (responseWords input)))
          / messagesPerConversation input)"
  by (simp add: calculateFrom_backcheck performBackcheck_def Let_def)


subsection \<open>Evaluation on concrete configurations\<close>

lemmas eval_simps =
  calculateCosts_def calculateCostsTry_def arrayFromLength_def toLength_def
  calculateFrom_def Let_def wordsToTokens_def tokensToWords_def WORDS_TO_TOKENS_RATIO_def
  OPENAI_MODELS_def gpt_4o_def inputPriceOr0_def outputPriceOr0_def
  getHistoryTokensForMessage_def performBackcheck_def upt_conv_Cons zeroResult_def faultResult_def

text \<open>The expectations of the tests of the calculator hold in the embedding.\<close>

lemma unit_converter_tests:
  "wordsToTokens 10 = 14 \<and> wordsToTokens 100 = 133 \<and> wordsToTokens 0 = 0
   \<and> wordsToTokens (- 1) = 0 \<and> wordsToTokens 0.5 = 1 \<and> wordsToTokens 1000000 = 1330000
   \<and> tokensToWords 14 = 11 \<and> tokensToWords 133 = 100 \<and> tokensToWords 0 = 0
   \<and> tokensToWords (- 1) = 0 \<and> tokensToWords 0.5 = 1 \<and> tokensToWords 1000000 = 751880"
  by (simp add: wordsToTokens_def tokensToWords_def WORDS_TO_TOKENS_RATIO_def)

lemma defaultInput_result:
  "calculateCosts defaultInput = \<lparr>
     tokensPerMessage = 844, wordsPerMessage = 635, totalDailyMessages = 1500,
     dailyCost = 4.065, monthlyCost = 121.95, annualCost = 1483.725,
     costPerMessage = 0.00271, costPerUser = 1.2195, averageHistoryTokens = 208,
     backcheck = Some \<lparr>
       isValid = True,
       details = \<lparr>
         inputTokensMatch = True, outputTokensMatch = True,
         totalMessagesMatch = True, dailyCostMatch = True,
         expectedValues = \<lparr> inputTokens = 764, outputTokens = 80,
                            totalMessages = 1500, dailyCostValue = 4.065 \<rparr>,
         actualValues = \<lparr> inputTokens = 764, outputTokens = 80,
                          totalMessages = 1500, dailyCostValue = 4.065 \<rparr> \<rparr> \<rparr> \<rparr>"
  by (simp add: defaultInput_def eval_simps)

lemma zeroInput_result: "calculateCosts zeroInput = zeroResult"
  by (simp add: zeroInput_def calculateCosts_zero)

lemma unknownModelInput_result:
  "dailyCost (calculateCosts unknownModelInput) = 0
   \<and> monthlyCost (calculateCosts unknownModelInput) = 0
   \<and> annualCost (calculateCosts unknownModelInput) = 0
   \<and> map_option isValid (backcheck (calculateCosts unknownModelInput)) = Some True"
  by (simp add: unknownModelInput_def defaultInput_def eval_simps)

lemma scenario_values:
  "map_option (\<lambda>b. inputTokens (expectedValues (details b))) (backcheck (calculateCosts scenarioInput))
      = Some 1320
   \<and> map_option (\<lambda>b. outputTokens (expectedValues (details b)))
        (backcheck (calculateCosts scenarioInput)) = Some 100
   \<and> totalDailyMessages (calculateCosts scenarioInput) = 1500
   \<and> dailyCost (calculateCosts scenarioInput) = 6.45
   \<and> monthlyCost (calculateCosts scenarioInput) = 193.5
   \<and> annualCost (calculateCosts scenarioInput) = 2354.25"
  by (simp add: scenarioInput_def eval_simps)

lemma costs_scale:
  "monthlyCost (calculateCosts input) = dailyCost (calculateCosts input) * 30
   \<and> annualCost (calculateCosts input) = dailyCost (calculateCosts input) * 365"
  by (simp add: calculateCosts_def calculateCostsTry_def calculateFrom_monthlyCost
      calculateFrom_annualCost zeroResult_def faultResult_def split: sum.splits)

lemma costs_zero_off_main:
  assumes "dailyUsers input = 0 \<or> conversationsPerUser input = 0
     \<or> messagesPerConversation input = 0 \<or> 2 ^ 32 \<le> messagesPerConversation input"
  shows "dailyCost (calculateCosts input) = 0 \<and> monthlyCost (calculateCosts input) = 0
     \<and> annualCost (calculateCosts input) = 0"
proof (cases "dailyUsers input = 0 \<or> conversationsPerUser input = 0
     \<or> messagesPerConversation input = 0")
  case True
  then show ?thesis using calculateCosts_zero [of input] by (simp add: zeroResult_def)
next
  case False
  then show ?thesis using assms calculateCosts_fault [of input] by (simp add: faultResult_def)
qed

subsection \<open>The unit converter\<close>





subsection \<open>Closed forms of the total of messages and of the daily cost\<close>




subsection \<open>Monotonicity\<close>












subsection \<open>An unresolved model\<close>

lemma unresolved_prices:
  "OPENAI_MODELS (selectedModel input) = None \<Longrightarrow>
     inputPriceOr0 (OPENAI_MODELS (selectedModel input)) = 0
     \<and> outputPriceOr0 (OPENAI_MODELS (selectedModel input)) = 0"
  by (simp add: inputPriceOr0_def outputPriceOr0_def)



section \<open>The claims\<close>



text \<open>
  C2. If one of \<open>dailyUsers\<close>, \<open>conversationsPerUser\<close>, \<open>messagesPerConversation\<close> is 0
  then, whatever the other fields are, the nine numeric fields of the result are 0 and its
  backcheck has \<open>isValid\<close> and the four match flags true and all expected and actual values 0.
\<close>

theorem zero_guard_all_zero:
  assumes "dailyUsers input = 0 \<or> conversationsPerUser input = 0
             \<or> messagesPerConversation input = 0"
  shows "tokensPerMessage (calculateCosts input) = 0
    \<and> wordsPerMessage (calculateCosts input) = 0
    \<and> totalDailyMessages (calculateCosts input) = 0
    \<and> dailyCost (calculateCosts input) = 0
    \<and> monthlyCost (calculateCosts input) = 0
    \<and> annualCost (calculateCosts input) = 0
    \<and> costPerMessage (calculateCosts input) = 0
    \<and> costPerUser (calculateCosts input) = 0
    \<and> averageHistoryTokens (calculateCosts input) = 0
    \<and> (\<exists>b. backcheck (calculateCosts input) = Some b
          \<and> isValid b
          \<and> inputTokensMatch (details b) \<and> outputTokensMatch (details b)
          \<and> totalMessagesMatch (details b) \<and> dailyCostMatch (details b)
          \<and> expectedValues (details b) =
               \<lparr> inputTokens = 0, outputTokens = 0, totalMessages = 0, dailyCostValue = 0 \<rparr>
          \<and> actualValues (details b) =
               \<lparr> inputTokens = 0, outputTokens = 0, totalMessages = 0, dailyCostValue = 0 \<rparr>)"
  using calculateCosts_zero [OF assms] by (simp add: zeroResult_def)

theorem zero_guard_all_zero_witness:
  "messagesPerConversation noConversationsInput \<noteq> 0
   \<and> conversationsPerUser noConversationsInput = 0
   \<and> tokensPerMessage (calculateCosts noConversationsInput) = 0
   \<and> totalDailyMessages (calculateCosts noConversationsInput) = 0
   \<and> dailyCost (calculateCosts noConversationsInput) = 0
   \<and> map_option isValid (backcheck (calculateCosts noConversationsInput)) = Some True
   \<and> dailyUsers zeroInput = 0
   \<and> averageHistoryTokens (calculateCosts zeroInput) = 0
   \<and> map_option isValid (backcheck (calculateCosts zeroInput)) = Some True"
  using zero_guard_all_zero [of noConversationsInput] zero_guard_all_zero [of zeroInput]
  by (auto simp: noConversationsInput_def zeroInput_def defaultInput_def)

text \<open>
  C3. On the main path the daily cost is
  \<open>totalInputTokens * totalDailyMessages / 1000 * inputPrice
     + outputTokens * totalDailyMessages / 1000 * outputPrice\<close>,
  a price being 0 for an unresolved model. For every configuration the monthly cost is the
  daily cost times 30 and the annual cost is the daily cost times 365; on the zero guard and on
  the fault path the three costs are 0. For a configuration with 1320 input tokens and 100
  output tokens per message, 1500 messages per day and the prices 0.0025 and 0.01 the daily
  cost is 6.45, the monthly cost 193.5 and the annual cost 2354.25.
\<close>

theorem cost_formulas:
  "(dailyUsers input \<noteq> 0 \<and> conversationsPerUser input \<noteq> 0
      \<and> messagesPerConversation input \<noteq> 0 \<and> messagesPerConversation input < 2 ^ 32 \<longrightarrow>
     (let queryTokens = wordsToTokens (userQueryWords input);
          outputTokens' = wordsToTokens (responseWords input);
          averageHistory =
            (\<Sum>i = 0 ..< nat \<lfloor>messagesPerConversation input\<rfloor>.
                real i * (queryTokens + outputTokens')) / messagesPerConversation input;
          totalInputTokens =
            chunksPerQuery input * wordsToTokens (wordsPerChunk input) + queryTokens
              + averageHistory;
          totalDailyMessages' = totalDailyMessages (calculateCosts input)
      in dailyCost (calculateCosts input) =
           totalInputTokens * totalDailyMessages' / 1000
             * inputPriceOr0 (OPENAI_MODELS (selectedModel input))
           + outputTokens' * totalDailyMessages' / 1000
             * outputPriceOr0 (OPENAI_MODELS (selectedModel input))))
   \<and> monthlyCost (calculateCosts input) = dailyCost (calculateCosts input) * 30
   \<and> annualCost (calculateCosts input) = dailyCost (calculateCosts input) * 365
   \<and> (dailyUsers input = 0 \<or> conversationsPerUser input = 0
        \<or> messagesPerConversation input = 0 \<or> 2 ^ 32 \<le> messagesPerConversation input \<longrightarrow>
        dailyCost (calculateCosts input) = 0 \<and> monthlyCost (calculateCosts input) = 0
        \<and> annualCost (calculateCosts input) = 0)
   \<and> map_option (\<lambda>b. inputTokens (expectedValues (details b)))
        (backcheck (calculateCosts scenarioInput)) = Some 1320
   \<and> map_option (\<lambda>b. outputTokens (expectedValues (details b)))
        (backcheck (calculateCosts scenarioInput)) = Some 100
   \<and> totalDailyMessages (calculateCosts scenarioInput) = 1500
   \<and> dailyCost (calculateCosts scenarioInput) = 6.45
   \<and> monthlyCost (calculateCosts scenarioInput) = 193.5
   \<and> annualCost (calculateCosts scenarioInput) = 2354.25"
proof (intro conjI impI)
  assume "dailyUsers input \<noteq> 0 \<and> conversationsPerUser input \<noteq> 0
      \<and> messagesPerConversation input \<noteq> 0 \<and> messagesPerConversation input < 2 ^ 32"
  then have "calculateCosts input =
     calculateFrom input (OPENAI_MODELS (selectedModel input))
       [0 ..< nat \<lfloor>messagesPerConversation input\<rfloor>]"
    by (simp add: calculateCosts_main)
  then show "let queryTokens = wordsToTokens (userQueryWords input);
          outputTokens' = wordsToTokens (responseWords input);
          averageHistory =
            (\<Sum>i = 0 ..< nat \<lfloor>messagesPerConversation input\<rfloor>.
                real i * (queryTokens + outputTokens')) / messagesPerConversation input;
          totalInputTokens =
            chunksPerQuery input * wordsToTokens (wordsPerChunk input) + queryTokens
              + averageHistory;
          totalDailyMessages' = totalDailyMessages (calculateCosts input)
      in dailyCost (calculateCosts input) =
           totalInputTokens * totalDailyMessages' / 1000
             * inputPriceOr0 (OPENAI_MODELS (selectedModel input))
           + outputTokens' * totalDailyMessages' / 1000
             * outputPriceOr0 (OPENAI_MODELS (selectedModel input))"
    by (simp only: Let_def calculateFrom_dailyCost calculateFrom_totalDailyMessages)
next
  assume "dailyUsers input = 0 \<or> conversationsPerUser input = 0
        \<or> messagesPerConversation input = 0 \<or> 2 ^ 32 \<le> messagesPerConversation input"
  then have z: "dailyCost (calculateCosts input) = 0 \<and> monthlyCost (calculateCosts input) = 0
     \<and> annualCost (calculateCosts input) = 0" by (rule costs_zero_off_main)
  from z show "dailyCost (calculateCosts input) = 0" by simp
  from z show "monthlyCost (calculateCosts input) = 0" by simp
  from z show "annualCost (calculateCosts input) = 0" by simp
qed (simp_all add: costs_scale scenario_values)

theorem cost_formulas_witness:
  "dailyUsers defaultInput \<noteq> 0 \<and> conversationsPerUser defaultInput \<noteq> 0
      \<and> messagesPerConversation defaultInput \<noteq> 0 \<and> messagesPerConversation defaultInput < 2 ^ 32
   \<and> dailyCost (calculateCosts defaultInput) =
        764 * 1500 / 1000 * 0.0025 + 80 * 1500 / 1000 * 0.01
   \<and> monthlyCost (calculateCosts defaultInput) = dailyCost (calculateCosts defaultInput) * 30
   \<and> annualCost (calculateCosts defaultInput) = dailyCost (calculateCosts defaultInput) * 365
   \<and> dailyUsers zeroInput = 0
   \<and> dailyCost (calculateCosts zeroInput) = 0 \<and> monthlyCost (calculateCosts zeroInput) = 0
   \<and> annualCost (calculateCosts zeroInput) = 0
   \<and> 2 ^ 32 \<le> messagesPerConversation unknownModelHugeInput
   \<and> dailyCost (calculateCosts unknownModelHugeInput) = 0
   \<and> monthlyCost (calculateCosts unknownModelHugeInput) = 0
   \<and> annualCost (calculateCosts unknownModelHugeInput) = 0"
  using cost_formulas [of defaultInput] cost_formulas [of zeroInput]
    cost_formulas [of unknownModelHugeInput]
  by (simp add: defaultInput_def zeroInput_def unknownModelHugeInput_def unknownModelInput_def
        eval_simps)

text \<open>
  C4. \<open>wordsToTokens words\<close> is the ceiling of \<open>words * 1.33\<close> for \<open>words > 0\<close> and 0 for
  \<open>words \<le> 0\<close>; \<open>tokensToWords tokens\<close> is the ceiling of \<open>tokens / 1.33\<close> for
  \<open>tokens > 0\<close> and 0 for \<open>tokens \<le> 0\<close>. In particular \<open>wordsToTokens 10 = 14\<close>,
  \<open>wordsToTokens (-1) = 0\<close>, \<open>tokensToWords 14 = 11\<close> and
  \<open>tokensToWords 1000000 = 751880\<close>.
\<close>

theorem unit_converter_ceiling:
  "(0 < words \<longrightarrow> wordsToTokens words = of_int \<lceil>words * 1.33\<rceil>)
   \<and> (words \<le> 0 \<longrightarrow> wordsToTokens words = 0)
   \<and> (0 < tokens \<longrightarrow> tokensToWords tokens = of_int \<lceil>tokens / 1.33\<rceil>)
   \<and> (tokens \<le> 0 \<longrightarrow> tokensToWords tokens = 0)
   \<and> wordsToTokens 10 = 14 \<and> wordsToTokens (- 1) = 0
   \<and> tokensToWords 14 = 11 \<and> tokensToWords 1000000 = 751880"
  by (simp add: wordsToTokens_def tokensToWords_def WORDS_TO_TOKENS_RATIO_def)

theorem unit_converter_ceiling_witness:
  "(0::real) < 200 \<and> wordsToTokens 200 = 266 \<and> (0::real) < 133 \<and> tokensToWords 133 = 100
   \<and> (- 5::real) \<le> 0 \<and> wordsToTokens (- 5) = 0 \<and> (0::real) \<le> 0 \<and> tokensToWords 0 = 0"
  using unit_converter_ceiling [of 200 133] unit_converter_ceiling [of "- 5" 0] by simp

text \<open>
  C5. On the main path, with \<open>N = messagesPerConversation\<close>, the field
  \<open>averageHistoryTokens\<close> is the average
  \<open>(\<Sum>i = 0 ..< N. i * (queryTokens + outputTokens)) / N\<close> rounded to the nearest integer,
  while the total of input tokens (reported by the backcheck, and part of
  \<open>tokensPerMessage\<close>) is \<open>chunksPerQuery * chunkTokens + queryTokens\<close> plus the average
  that is not rounded. With \<open>messagesPerConversation = 1\<close> the field is 0. The sum has
  one term for each index of the array, \<open>\<lfloor>N\<rfloor>\<close> of them.
\<close>

theorem history_average:
  assumes "dailyUsers input \<noteq> 0" and "conversationsPerUser input \<noteq> 0"
    and "messagesPerConversation input \<noteq> 0" and "messagesPerConversation input < 2 ^ 32"
  shows
    "(let queryTokens = wordsToTokens (userQueryWords input);
          outputTokens' = wordsToTokens (responseWords input);
          averageHistory =
            (\<Sum>i = 0 ..< nat \<lfloor>messagesPerConversation input\<rfloor>.
                real i * (queryTokens + outputTokens')) / messagesPerConversation input
      in averageHistoryTokens (calculateCosts input) = of_int (round averageHistory)
         \<and> map_option (\<lambda>b. inputTokens (expectedValues (details b)))
              (backcheck (calculateCosts input)) =
             Some (chunksPerQuery input * wordsToTokens (wordsPerChunk input) + queryTokens
                    + averageHistory)
         \<and> tokensPerMessage (calculateCosts input) =
             chunksPerQuery input * wordsToTokens (wordsPerChunk input) + queryTokens
               + averageHistory + outputTokens'
         \<and> (messagesPerConversation input = 1 \<longrightarrow>
               averageHistoryTokens (calculateCosts input) = 0))"
proof -
  have m: "calculateCosts input =
     calculateFrom input (OPENAI_MODELS (selectedModel input))
       [0 ..< nat \<lfloor>messagesPerConversation input\<rfloor>]"
    using assms by (rule calculateCosts_main)
  have avg: "averageHistoryTokens (calculateCosts input) =
     of_int (round ((\<Sum>i = 0 ..< nat \<lfloor>messagesPerConversation input\<rfloor>. real i *
        (wordsToTokens (userQueryWords input) + wordsToTokens (responseWords input)))
          / messagesPerConversation input))"
    by (simp only: m calculateFrom_averageHistoryTokens)
  have one: "messagesPerConversation input = 1 \<Longrightarrow>
      averageHistoryTokens (calculateCosts input) = 0"
    by (simp add: avg)
  show ?thesis
    unfolding Let_def
    using one
    by (simp only: m calculateFrom_averageHistoryTokens calculateFrom_inputTokens
          calculateFrom_tokensPerMessage) simp
qed

theorem history_average_witness:
  "dailyUsers fractionalInput \<noteq> 0 \<and> conversationsPerUser fractionalInput \<noteq> 0
   \<and> messagesPerConversation fractionalInput \<noteq> 0
   \<and> messagesPerConversation fractionalInput < 2 ^ 32
   \<and> (\<Sum>i = 0 ..< nat \<lfloor>messagesPerConversation fractionalInput\<rfloor>.
        real i * (wordsToTokens (userQueryWords fractionalInput)
                  + wordsToTokens (responseWords fractionalInput)))
        / messagesPerConversation fractionalInput = 1.2
   \<and> averageHistoryTokens (calculateCosts fractionalInput) = 1
   \<and> tokensPerMessage (calculateCosts fractionalInput) = 532 + 0 + 1.2 + 3
   \<and> averageHistoryTokens (calculateCosts (defaultInput \<lparr> messagesPerConversation := 1 \<rparr>)) = 0"
  using history_average [of fractionalInput]
        history_average [of "defaultInput \<lparr> messagesPerConversation := 1 \<rparr>"]
  by (simp add: fractionalInput_def defaultInput_def wordsToTokens_def WORDS_TO_TOKENS_RATIO_def
        Let_def eval_nat_numeral round_def)




text \<open>
  C7. Whatever its arguments, \<^verbatim>\<open>performBackcheck\<close> returns a report whose flags
  \<open>inputTokensMatch\<close> and \<open>outputTokensMatch\<close> are true and whose expected and actual
  token values are both the argument \<open>totalInputTokens\<close>, respectively \<open>outputTokens\<close>.
\<close>

theorem performBackcheck_token_flags:
  "inputTokensMatch (details (performBackcheck input result model totalInputTokens outputTokens'))
   \<and> outputTokensMatch (details (performBackcheck input result model totalInputTokens outputTokens'))
   \<and> inputTokens (expectedValues (details
         (performBackcheck input result model totalInputTokens outputTokens'))) = totalInputTokens
   \<and> inputTokens (actualValues (details
         (performBackcheck input result model totalInputTokens outputTokens'))) = totalInputTokens
   \<and> outputTokens (expectedValues (details
         (performBackcheck input result model totalInputTokens outputTokens'))) = outputTokens'
   \<and> outputTokens (actualValues (details
         (performBackcheck input result model totalInputTokens outputTokens'))) = outputTokens'"
  by (simp add: performBackcheck_def Let_def)

theorem performBackcheck_token_flags_witness:
  "inputTokensMatch (details (performBackcheck defaultInput faultResult None 764 80))
   \<and> outputTokensMatch (details (performBackcheck defaultInput faultResult None 764 80))
   \<and> \<not> totalMessagesMatch (details (performBackcheck defaultInput faultResult None 764 80))
   \<and> inputTokens (expectedValues (details
         (performBackcheck defaultInput faultResult None 764 80))) = 764
   \<and> outputTokens (actualValues (details
         (performBackcheck defaultInput faultResult None 764 80))) = 80"
  using performBackcheck_token_flags [of defaultInput faultResult None 764 80]
  by (simp add: performBackcheck_def Let_def defaultInput_def faultResult_def)









end
